theory Spec2Isabelle
  imports Main "HOL-Library.Multiset" "HOL-Library.AList"
begin

section \<open>Python values, exceptions and the trace of a script run\<close>

text \<open>
  The program is a single Streamlit script, \<^verbatim>\<open>app.py\<close>, that is run from top to bottom on
  every interaction. Its collaborators are libraries and services outside the script.
  Where the script's behaviour hangs on what a library does with the script's arguments
  (Streamlit's secrets and resource cache, FlashRank's \<^verbatim>\<open>Ranker.rerank\<close>), that part of the
  library is written out below; the services behind them (the vector index, the scoring
  model, the generation chain) are parameters that return a value or raise.

  Dictionaries that the script builds are association lists of dynamically typed values.
\<close>

datatype pyval =
    PNone
  | PInt int
  | PStr string
  | PList "pyval list"
  | PDict "(string \<times> pyval) list"

text \<open>
  A \<^verbatim>\<open>KeyError\<close> carries its argument, the others their message; the wording of a
  \<^verbatim>\<open>TypeError\<close> depends on the Python version and is left out.
\<close>

datatype exn =
    KeyError string
  | FileNotFoundError string
  | JSONDecodeError string
  | TypeError
  | BackendError string

text \<open>
  \<^verbatim>\<open>repr\<close> of a string: single quotes, unless the string has a single quote and no double
  quote; the quote in use, the backslash, newline, return and tab are escaped. (Python
  also escapes the other control characters, which do not occur here.)
\<close>

definition repr_quote :: "string \<Rightarrow> char" where
  "repr_quote s = (if CHR 0x27 \<in> set s \<and> CHR 0x22 \<notin> set s then CHR 0x22 else CHR 0x27)"

definition repr_char :: "char \<Rightarrow> char \<Rightarrow> string" where
  "repr_char q c =
     (if c = CHR 0x5C then [CHR 0x5C, CHR 0x5C]
      else if c = q then [CHR 0x5C, c]
      else if c = CHR 0x0A then [CHR 0x5C, CHR ''n'']
      else if c = CHR 0x0D then [CHR 0x5C, CHR ''r'']
      else if c = CHR 0x09 then [CHR 0x5C, CHR ''t'']
      else [c])"

definition py_repr :: "string \<Rightarrow> string" where
  "py_repr s = repr_quote s # concat (map (repr_char (repr_quote s)) s) @ [repr_quote s]"

text \<open>
  What a run does that can be observed from outside: the widgets the script draws and the
  calls it makes to its collaborators, in order. What Streamlit itself displays for an
  exception that leaves the script is not part of it.
\<close>

datatype event =
    StError string
  | InitBackend string string
  | Selectbox "string list"
  | ChatMessage string string
  | Retrieve "(string \<times> pyval) list" string
  | Rerank string "string list"
  | Generate string string

text \<open>
  A statement sequence either goes on with a value, ends the run (\<^verbatim>\<open>st.stop()\<close>), or
  leaves through an exception nobody caught.
\<close>

datatype 'a flow = Next 'a | Halt | Uncaught exn

type_synonym 'a io = "event list \<times> 'a flow"

fun bind_io :: "'a io \<Rightarrow> ('a \<Rightarrow> 'b io) \<Rightarrow> 'b io" where
  "bind_io (evs, Next x) f = (case f x of (evs', r) \<Rightarrow> (evs @ evs', r))"
| "bind_io (evs, Halt) f = (evs, Halt)"
| "bind_io (evs, Uncaught e) f = (evs, Uncaught e)"

definition call :: "event \<Rightarrow> exn + 'a \<Rightarrow> 'a io" where
  "call ev res = ([ev], case res of Inl e \<Rightarrow> Uncaught e | Inr v \<Rightarrow> Next v)"


section \<open>Secrets (lines 19 to 26)\<close>

text \<open>
  \<^verbatim>\<open>st.secrets\<close> parses the secrets file on first use. The store is what that parsing gives:
  the mapping, or the exception it raises (a \<^verbatim>\<open>FileNotFoundError\<close> when there is no secrets
  file). For a key that the mapping lacks, \<^verbatim>\<open>st.secrets[key]\<close> raises a \<^verbatim>\<open>KeyError\<close> whose
  argument is a sentence: it starts by naming the key between double quotes and goes on
  with a \<open>hint\<close> that is fixed by the Streamlit version. \<^verbatim>\<open>st.secrets.get\<close> is the
  mapping's \<^verbatim>\<open>get\<close>: the item, and the default where the item raises \<^verbatim>\<open>KeyError\<close>.
\<close>

type_synonym secrets = "string \<rightharpoonup> string"

definition missing_key_sentence :: "string \<Rightarrow> string \<Rightarrow> string" where
  "missing_key_sentence hint key =
     ''st.secrets has no key '' @ [CHR 0x22] @ key @ [CHR 0x22] @ ''. '' @ hint"

definition secrets_getitem :: "string \<Rightarrow> exn + secrets \<Rightarrow> string \<Rightarrow> exn + string" where
  "secrets_getitem hint store key =
     (case store of
        Inl e \<Rightarrow> Inl e
      | Inr s \<Rightarrow>
          (case s key of
             None \<Rightarrow> Inl (KeyError (missing_key_sentence hint key))
           | Some v \<Rightarrow> Inr v))"

definition secrets_get :: "string \<Rightarrow> exn + secrets \<Rightarrow> string \<Rightarrow> string \<Rightarrow> exn + string" where
  "secrets_get hint store key dflt =
     (case secrets_getitem hint store key of
        Inr v \<Rightarrow> Inr v
      | Inl e \<Rightarrow> (case e of KeyError arg \<Rightarrow> Inr dflt | _ \<Rightarrow> Inl e))"

record config =
  openai_api_key :: string
  pinecone_api_key :: string
  index_name :: string

text \<open>The body of the \<^verbatim>\<open>try\<close>: three reads in the order of the source.\<close>

definition read_secrets :: "string \<Rightarrow> exn + secrets \<Rightarrow> exn + config" where
  "read_secrets hint store =
     (case secrets_getitem hint store ''OPENAI_API_KEY'' of
        Inl e \<Rightarrow> Inl e
      | Inr okey \<Rightarrow>
          (case secrets_getitem hint store ''PINECONE_API_KEY'' of
             Inl e \<Rightarrow> Inl e
           | Inr pkey \<Rightarrow>
               (case secrets_get hint store ''PINECONE_INDEX_NAME''
                       ''eller-executive-edu-ak-final'' of
                  Inl e \<Rightarrow> Inl e
                | Inr idx \<Rightarrow>
                    Inr \<lparr>openai_api_key = okey, pinecone_api_key = pkey, index_name = idx\<rparr>)))"

text \<open>The siren emoji of the message, as its four UTF-8 bytes.\<close>

definition siren :: string where
  "siren = [CHR 0xF0, CHR 0x9F, CHR 0x9A, CHR 0xA8]"

text \<open>
  The text of line 25 for a \<^verbatim>\<open>KeyError\<close> with argument \<open>arg\<close>: the f-string formats the
  exception with \<^verbatim>\<open>str\<close>, which for a \<^verbatim>\<open>KeyError\<close> is the \<^verbatim>\<open>repr\<close> of its argument.
\<close>

definition missing_secret_message :: "string \<Rightarrow> string" where
  "missing_secret_message arg =
     siren @ '' Missing Secret: Please set '' @ py_repr arg
       @ '' in your Streamlit Cloud app settings.''"

text \<open>
  The \<^verbatim>\<open>try\<close> with its handler: \<^verbatim>\<open>except KeyError as e\<close> shows the error and stops the
  script; any other exception is not handled.
\<close>

definition load_secrets :: "string \<Rightarrow> exn + secrets \<Rightarrow> config io" where
  "load_secrets hint store =
     (case read_secrets hint store of
        Inr cfg \<Rightarrow> ([], Next cfg)
      | Inl e \<Rightarrow>
          (case e of
             KeyError arg \<Rightarrow> ([StError (missing_secret_message arg)], Halt)
           | _ \<Rightarrow> ([], Uncaught e)))"


section \<open>The reranking helper (lines 50 to 55)\<close>

text \<open>
  A chunk as the retriever returns it, and a result of the ranker. The script reads only
  the \<^verbatim>\<open>text\<close> of a result; its score is kept as an integer, of which only the order
  matters.
\<close>

record document =
  page_content :: string
  metadata :: "(string \<times> pyval) list"

record rerank_result =
  "text" :: string
  score :: int

text \<open>
  The services: the retriever of the vector store, the scoring model that the ranker
  runs on a batch of query and text pairs (one score per pair), and the generation chain.
\<close>

record backends =
  get_relevant_documents :: "(string \<times> pyval) list \<Rightarrow> string \<Rightarrow> exn + document list"
  ranker_model :: "string \<Rightarrow> string list \<Rightarrow> exn + int list"
  generate_answer_chain :: "string \<Rightarrow> string \<Rightarrow> exn + string"

text \<open>
  FlashRank's \<^verbatim>\<open>Ranker.rerank\<close> on a request of a query and passages. It takes each passage
  to be a dictionary and reads \<^verbatim>\<open>passage["text"]\<close> from every one, in order, before anything
  is scored: a dictionary without that key raises \<^verbatim>\<open>KeyError\<close>, and a passage that is a
  string (or any other value that a string cannot index) raises \<^verbatim>\<open>TypeError\<close>. It then runs
  the model on the pairs, stores each score in its passage and returns the passages by
  descending score, equal scores in their order of arrival.
\<close>

fun passage_text :: "pyval \<Rightarrow> exn + string" where
  "passage_text (PDict d) =
     (case map_of d ''text'' of
        None \<Rightarrow> Inl (KeyError ''text'')
      | Some v \<Rightarrow> (case v of PStr t \<Rightarrow> Inr t | _ \<Rightarrow> Inl TypeError))"
| "passage_text _ = Inl TypeError"

fun passage_texts :: "pyval list \<Rightarrow> exn + string list" where
  "passage_texts [] = Inr []"
| "passage_texts (p # ps) =
     (case passage_text p of
        Inl e \<Rightarrow> Inl e
      | Inr t \<Rightarrow> (case passage_texts ps of Inl e \<Rightarrow> Inl e | Inr ts \<Rightarrow> Inr (t # ts)))"

definition ranker_rerank ::
  "(string \<Rightarrow> string list \<Rightarrow> exn + int list) \<Rightarrow> string \<Rightarrow> pyval list
     \<Rightarrow> exn + rerank_result list" where
  "ranker_rerank model query passages =
     (case passage_texts passages of
        Inl e \<Rightarrow> Inl e
      | Inr texts \<Rightarrow>
          (case model query texts of
             Inl e \<Rightarrow> Inl e
           | Inr scores \<Rightarrow>
               if length scores < length texts then Inl (KeyError ''score'')
               else Inr (sort_key (\<lambda>r. - score r)
                           (map (\<lambda>(t, s). \<lparr>text = t, score = s\<rparr>) (zip texts scores)))))"

text \<open>
  \<^verbatim>\<open>rerank_docs\<close>: line 52 collects the contents of the chunks, which are strings, and
  line 53 puts them into the request as they are.
\<close>

definition rerank_docs :: "backends \<Rightarrow> string \<Rightarrow> document list \<Rightarrow> string list io" where
  "rerank_docs B query docs =
     (let passages = map page_content docs in
      bind_io (call (Rerank query passages)
                 (ranker_rerank (ranker_model B) query (map PStr passages)))
        (\<lambda>reranked_results. ([], Next (map text (take 5 reranked_results)))))"


section \<open>The sidebar (lines 84 to 99)\<close>

definition topics_not_found_message :: string where
  "topics_not_found_message =
     ''`topics.json` not found. Please ensure it's in your GitHub repository.''"

text \<open>
  The argument is what \<^verbatim>\<open>open\<close> followed by \<^verbatim>\<open>json.load\<close> did: the list read, or the
  exception one of them raised. Only \<^verbatim>\<open>FileNotFoundError\<close> has a handler.
\<close>

definition load_topics :: "exn + string list \<Rightarrow> string list io" where
  "load_topics file =
     (case file of
        Inr available_filters \<Rightarrow> ([], Next available_filters)
      | Inl e \<Rightarrow>
          (case e of
             FileNotFoundError msg \<Rightarrow> ([StError topics_not_found_message], Next [''All''])
           | _ \<Rightarrow> ([], Uncaught e)))"

text \<open>
  The select box returns the option the user picked, and \<^verbatim>\<open>None\<close> when the list has no
  such option.
\<close>

definition selectbox :: "string list \<Rightarrow> nat \<Rightarrow> pyval io" where
  "selectbox options picked =
     ([Selectbox options],
      Next (if picked < length options then PStr (options ! picked) else PNone))"

definition sidebar :: "exn + string list \<Rightarrow> nat \<Rightarrow> pyval io" where
  "sidebar file picked =
     bind_io (load_topics file) (\<lambda>available_filters. selectbox available_filters picked)"


section \<open>The chat handler (lines 102 to 135)\<close>

record message =
  role :: string
  content :: string

definition not_found_response :: string where
  "not_found_response =
     ''I could not find relevant information for that specific topic. Please try another search or select 'All' from the dropdown.''"

definition separator :: string where
  "separator = ''\<newline>\<newline>---\<newline>\<newline>''"

text \<open>\<^verbatim>\<open>sep.join(parts)\<close>.\<close>

fun join :: "string \<Rightarrow> string list \<Rightarrow> string" where
  "join sep [] = []"
| "join sep [x] = x"
| "join sep (x # y # ys) = x @ sep @ join sep (y # ys)"

definition search_kwargs :: "pyval \<Rightarrow> (string \<times> pyval) list" where
  "search_kwargs selected_filter =
     (let kwargs = [(''k'', PInt 25)] in
      if selected_filter \<noteq> PStr ''All''
      then AList.update ''filter''
             (PDict [(''topics'', PDict [(''$in'', PList [selected_filter])])]) kwargs
      else kwargs)"

text \<open>Lines 117 to 131: from the search arguments to the response.\<close>

definition rag_execution :: "backends \<Rightarrow> pyval \<Rightarrow> string \<Rightarrow> string io" where
  "rag_execution B selected_filter user_prompt =
     (let kwargs = search_kwargs selected_filter in
      bind_io (call (Retrieve kwargs user_prompt) (get_relevant_documents B kwargs user_prompt))
        (\<lambda>initial_docs.
           if initial_docs = [] then ([], Next not_found_response)
           else
             bind_io (rerank_docs B user_prompt initial_docs)
               (\<lambda>reranked.
                  let reranked_context = join separator reranked in
                  call (Generate user_prompt reranked_context)
                    (generate_answer_chain B user_prompt reranked_context))))"

text \<open>
  Lines 109 to 135. The transcript is changed in place, so what it holds when an exception
  leaves the handler is returned next to the flow. A prompt of \<^verbatim>\<open>None\<close> or the empty string
  is falsy and the handler is skipped.
\<close>

definition chat_handler ::
  "backends \<Rightarrow> pyval \<Rightarrow> string option \<Rightarrow> message list \<Rightarrow> message list \<times> unit io" where
  "chat_handler B selected_filter chat_input messages =
     (case chat_input of
        None \<Rightarrow> (messages, ([], Next ()))
      | Some user_prompt \<Rightarrow>
          if user_prompt = [] then (messages, ([], Next ()))
          else
            (let messages1 = messages @ [\<lparr>role = ''user'', content = user_prompt\<rparr>];
                 shown = [ChatMessage ''user'' user_prompt]
             in case rag_execution B selected_filter user_prompt of
                  (evs, Next response) \<Rightarrow>
                    (messages1 @ [\<lparr>role = ''assistant'', content = response\<rparr>],
                     (shown @ evs @ [ChatMessage ''assistant'' response], Next ()))
                | (evs, Halt) \<Rightarrow> (messages1, (shown @ evs, Halt))
                | (evs, Uncaught e) \<Rightarrow> (messages1, (shown @ evs, Uncaught e))))"


section \<open>One run of the script\<close>

text \<open>
  \<^verbatim>\<open>initialize_backend_components\<close> is decorated with \<^verbatim>\<open>st.cache_resource\<close>: its body runs
  when the cache of the process holds nothing for it, and its result is kept there; every
  later run gets the kept components and the body does not run. \<open>build\<close> is what the body
  makes of the OpenAI key and the index name.
\<close>

definition initialize_backend_components ::
  "(string \<Rightarrow> string \<Rightarrow> backends) \<Rightarrow> config \<Rightarrow> backends option
     \<Rightarrow> event list \<times> backends \<times> backends option" where
  "initialize_backend_components build cfg cache =
     (case cache of
        Some components \<Rightarrow> ([], components, cache)
      | None \<Rightarrow>
          (let components = build (openai_api_key cfg) (index_name cfg) in
           ([InitBackend (openai_api_key cfg) (index_name cfg)], components,
            Some components)))"

record environment =
  secret_store :: "exn + secrets"
  secrets_hint :: string
  connect :: "string \<Rightarrow> string \<Rightarrow> backends"
  topics_file :: "exn + string list"
  picked_option :: nat
  chat_input :: "string option"

record run =
  trace :: "event list"
  outcome :: "unit flow"
  session_messages :: "message list option"
  resource_cache :: "backends option"

text \<open>
  \<^verbatim>\<open>st.session_state\<close> has no \<^verbatim>\<open>messages\<close> entry on the first run of a session (\<open>None\<close>);
  lines 102 and 103 create it, lines 105 to 107 draw the transcript.
\<close>

definition render :: "message list \<Rightarrow> event list" where
  "render messages = map (\<lambda>m. ChatMessage (role m) (content m)) messages"

definition run_script ::
  "environment \<Rightarrow> message list option \<Rightarrow> backends option \<Rightarrow> run" where
  "run_script env state cache =
     (case load_secrets (secrets_hint env) (secret_store env) of
        (evs1, Halt) \<Rightarrow>
          \<lparr>trace = evs1, outcome = Halt, session_messages = state, resource_cache = cache\<rparr>
      | (evs1, Uncaught e) \<Rightarrow>
          \<lparr>trace = evs1, outcome = Uncaught e, session_messages = state,
           resource_cache = cache\<rparr>
      | (evs1, Next cfg) \<Rightarrow>
          (case initialize_backend_components (connect env) cfg cache of
             (evs_init, components, cache') \<Rightarrow>
               (case sidebar (topics_file env) (picked_option env) of
                  (evs2, Halt) \<Rightarrow>
                    \<lparr>trace = evs1 @ evs_init @ evs2, outcome = Halt,
                     session_messages = state, resource_cache = cache'\<rparr>
                | (evs2, Uncaught e) \<Rightarrow>
                    \<lparr>trace = evs1 @ evs_init @ evs2, outcome = Uncaught e,
                     session_messages = state, resource_cache = cache'\<rparr>
                | (evs2, Next selected_filter) \<Rightarrow>
                    (let messages = (case state of None \<Rightarrow> [] | Some ms \<Rightarrow> ms) in
                     case chat_handler components selected_filter (chat_input env) messages of
                       (messages', evs3, r) \<Rightarrow>
                         \<lparr>trace = evs1 @ evs_init @ evs2 @ render messages @ evs3,
                          outcome = r, session_messages = Some messages',
                          resource_cache = cache'\<rparr>))))"


section \<open>Reading a trace\<close>

fun retrieve_calls :: "event list \<Rightarrow> ((string \<times> pyval) list \<times> string) list" where
  "retrieve_calls [] = []"
| "retrieve_calls (Retrieve kwargs q # evs) = (kwargs, q) # retrieve_calls evs"
| "retrieve_calls (_ # evs) = retrieve_calls evs"

fun generate_calls :: "event list \<Rightarrow> (string \<times> string) list" where
  "generate_calls [] = []"
| "generate_calls (Generate q ctx # evs) = (q, ctx) # generate_calls evs"
| "generate_calls (_ # evs) = generate_calls evs"

fun backend_initialised :: "event list \<Rightarrow> bool" where
  "backend_initialised [] = False"
| "backend_initialised (InitBackend key idx # evs) = True"
| "backend_initialised (_ # evs) = backend_initialised evs"

fun is_backend_call :: "event \<Rightarrow> bool" where
  "is_backend_call (Retrieve kwargs q) = True"
| "is_backend_call (Rerank q passages) = True"
| "is_backend_call (Generate q ctx) = True"
| "is_backend_call _ = False"


section \<open>Stand-ins for the services\<close>

text \<open>
  Small executable services on which the script can be run: a model that scores a text
  by the number of its characters that occur in the query, an index of three chunks that
  honours the \<^verbatim>\<open>$in\<close> filter on \<^verbatim>\<open>topics\<close>, an index without chunks, an index that
  cannot be reached, and a generator that answers.
\<close>

definition overlap_score :: "string \<Rightarrow> string \<Rightarrow> int" where
  "overlap_score query passage = int (length (filter (\<lambda>c. c \<in> set query) passage))"

definition overlap_model :: "string \<Rightarrow> string list \<Rightarrow> exn + int list" where
  "overlap_model query texts = Inr (map (overlap_score query) texts)"

definition demo_chunks :: "document list" where
  "demo_chunks =
     [\<lparr>page_content = ''cost'', metadata = [(''topics'', PList [PStr ''Pricing''])]\<rparr>,
      \<lparr>page_content = ''value price'', metadata = [(''topics'', PList [PStr ''Pricing''])]\<rparr>,
      \<lparr>page_content = ''brand'', metadata = [(''topics'', PList [PStr ''Marketing''])]\<rparr>]"

definition has_topic :: "pyval list \<Rightarrow> document \<Rightarrow> bool" where
  "has_topic wanted doc =
     (case map_of (metadata doc) ''topics'' of
        Some (PList ts) \<Rightarrow> list_ex (\<lambda>t. t \<in> set wanted) ts
      | _ \<Rightarrow> False)"

definition demo_retriever :: "(string \<times> pyval) list \<Rightarrow> string \<Rightarrow> exn + document list" where
  "demo_retriever kwargs query =
     (case map_of kwargs ''filter'' of
        None \<Rightarrow> Inr demo_chunks
      | Some (PDict [(field, PDict [(op, PList wanted)])]) \<Rightarrow>
          Inr (filter (has_topic wanted) demo_chunks)
      | Some _ \<Rightarrow> Inl (BackendError ''bad filter''))"

definition empty_retriever :: "(string \<times> pyval) list \<Rightarrow> string \<Rightarrow> exn + document list" where
  "empty_retriever kwargs query = Inr []"

definition failing_retriever :: "(string \<times> pyval) list \<Rightarrow> string \<Rightarrow> exn + document list" where
  "failing_retriever kwargs query = Inl (BackendError ''retrieval unavailable'')"

definition echo_generator :: "string \<Rightarrow> string \<Rightarrow> exn + string" where
  "echo_generator question context = Inr (''Q: '' @ question @ '' C: '' @ context)"

definition demo_backends :: backends where
  "demo_backends =
     \<lparr>get_relevant_documents = demo_retriever, ranker_model = overlap_model,
      generate_answer_chain = echo_generator\<rparr>"

definition empty_backends :: backends where
  "empty_backends =
     \<lparr>get_relevant_documents = empty_retriever, ranker_model = overlap_model,
      generate_answer_chain = echo_generator\<rparr>"

definition failing_backends :: backends where
  "failing_backends =
     \<lparr>get_relevant_documents = failing_retriever, ranker_model = overlap_model,
      generate_answer_chain = echo_generator\<rparr>"

definition demo_connect :: "string \<Rightarrow> string \<Rightarrow> backends" where
  "demo_connect key idx = demo_backends"

definition empty_connect :: "string \<Rightarrow> string \<Rightarrow> backends" where
  "empty_connect key idx = empty_backends"

definition failing_connect :: "string \<Rightarrow> string \<Rightarrow> backends" where
  "failing_connect key idx = failing_backends"

definition demo_secrets :: secrets where
  "demo_secrets = [''OPENAI_API_KEY'' \<mapsto> ''sk-demo'', ''PINECONE_API_KEY'' \<mapsto> ''pc-demo'']"

definition demo_hint :: string where
  "demo_hint = ''Did you forget to add it to secrets.toml?''"

definition demo_transcript :: "message list" where
  "demo_transcript =
     [\<lparr>role = ''user'', content = ''hello''\<rparr>, \<lparr>role = ''assistant'', content = ''welcome''\<rparr>]"

definition demo_env :: environment where
  "demo_env =
     \<lparr>secret_store = Inr demo_secrets,
      secrets_hint = demo_hint,
      connect = demo_connect,
      topics_file = Inr [''All'', ''Pricing'', ''Marketing''],
      picked_option = 1,
      chat_input = Some ''price''\<rparr>"

definition failing_env :: environment where
  "failing_env = demo_env\<lparr>connect := failing_connect\<rparr>"

definition missing_topics_env :: environment where
  "missing_topics_env =
     demo_env\<lparr>connect := empty_connect,
              topics_file := Inl (FileNotFoundError ''topics.json''), picked_option := 0\<rparr>"

definition corrupt_topics_env :: environment where
  "corrupt_topics_env = demo_env\<lparr>topics_file := Inl (JSONDecodeError ''Expecting value'')\<rparr>"

definition no_pinecone_key_env :: environment where
  "no_pinecone_key_env =
     demo_env\<lparr>secret_store := Inr [''OPENAI_API_KEY'' \<mapsto> ''sk-demo'']\<rparr>"

definition no_secrets_env :: environment where
  "no_secrets_env =
     demo_env\<lparr>secret_store := Inl (FileNotFoundError ''No secrets found'')\<rparr>"


section \<open>The ranker on the script's request\<close>

lemma passage_texts_bare:
  "passages \<noteq> [] \<Longrightarrow> passage_texts (map PStr passages) = Inl TypeError"
  by (cases passages) simp_all

lemma ranker_rerank_bare:
  "passages \<noteq> [] \<Longrightarrow> ranker_rerank model query (map PStr passages) = Inl TypeError"
  by (simp add: ranker_rerank_def passage_texts_bare)

lemma ranker_rerank_none:
  "ranker_rerank model query [] =
     (case model query [] of Inl e \<Rightarrow> Inl e | Inr scores \<Rightarrow> Inr [])"
  by (simp add: ranker_rerank_def split: sum.splits)



lemma rerank_docs_returns:
  "ranker_rerank (ranker_model B) query (map PStr (map page_content docs)) = Inr results \<Longrightarrow>
   rerank_docs B query docs =
     ([Rerank query (map page_content docs)], Next (map text (take 5 results)))"
  by (simp add: rerank_docs_def call_def)

lemma rerank_docs_raises:
  "ranker_rerank (ranker_model B) query (map PStr (map page_content docs)) = Inl e \<Longrightarrow>
   rerank_docs B query docs = ([Rerank query (map page_content docs)], Uncaught e)"
  by (simp add: rerank_docs_def call_def)

lemma rerank_docs_chunks:
  "docs \<noteq> [] \<Longrightarrow>
   rerank_docs B query docs = ([Rerank query (map page_content docs)], Uncaught TypeError)"
  by (rule rerank_docs_raises, rule ranker_rerank_bare) simp

lemma rerank_docs_none:
  "rerank_docs B query [] =
     ([Rerank query []],
      case ranker_model B query [] of Inl e \<Rightarrow> Uncaught e | Inr scores \<Rightarrow> Next [])"
  by (simp add: rerank_docs_def call_def ranker_rerank_none split: sum.splits)

lemma rerank_docs_Next:
  assumes "snd (rerank_docs B query docs) = Next reranked"
  shows "docs = [] \<and> reranked = []"
proof (cases "docs = []")
  case True
  with assms show ?thesis
    by (auto simp add: rerank_docs_none split: sum.splits)
next
  case False
  with assms show ?thesis
    by (simp add: rerank_docs_chunks)
qed


section \<open>How the pipeline's steps compose\<close>

lemma rag_empty:
  "get_relevant_documents B (search_kwargs sel) q = Inr [] \<Longrightarrow>
   rag_execution B sel q = ([Retrieve (search_kwargs sel) q], Next not_found_response)"
  by (simp add: rag_execution_def call_def)

lemma rag_retrieval_raises:
  "get_relevant_documents B (search_kwargs sel) q = Inl e \<Longrightarrow>
   rag_execution B sel q = ([Retrieve (search_kwargs sel) q], Uncaught e)"
  by (simp add: rag_execution_def call_def)

lemma rag_rerank_raises:
  "get_relevant_documents B (search_kwargs sel) q = Inr docs \<Longrightarrow> docs \<noteq> [] \<Longrightarrow>
   ranker_rerank (ranker_model B) q (map PStr (map page_content docs)) = Inl e \<Longrightarrow>
   rag_execution B sel q =
     ([Retrieve (search_kwargs sel) q, Rerank q (map page_content docs)], Uncaught e)"
  by (simp add: rag_execution_def call_def rerank_docs_raises)

lemma rag_generates:
  "get_relevant_documents B (search_kwargs sel) q = Inr docs \<Longrightarrow> docs \<noteq> [] \<Longrightarrow>
   ranker_rerank (ranker_model B) q (map PStr (map page_content docs)) = Inr results \<Longrightarrow>
   rag_execution B sel q =
     ([Retrieve (search_kwargs sel) q, Rerank q (map page_content docs),
       Generate q (join separator (map text (take 5 results)))],
      case generate_answer_chain B q (join separator (map text (take 5 results))) of
        Inl e \<Rightarrow> Uncaught e | Inr response \<Rightarrow> Next response)"
  by (simp add: rag_execution_def call_def rerank_docs_returns Let_def)

lemma rag_chunks:
  "get_relevant_documents B (search_kwargs sel) q = Inr docs \<Longrightarrow> docs \<noteq> [] \<Longrightarrow>
   rag_execution B sel q =
     ([Retrieve (search_kwargs sel) q, Rerank q (map page_content docs)], Uncaught TypeError)"
  by (rule rag_rerank_raises, assumption, assumption, rule ranker_rerank_bare) simp

lemma rag_cases:
  obtains (raises) e where "get_relevant_documents B (search_kwargs sel) q = Inl e"
      and "rag_execution B sel q = ([Retrieve (search_kwargs sel) q], Uncaught e)"
    | (none) "get_relevant_documents B (search_kwargs sel) q = Inr []"
      and "rag_execution B sel q = ([Retrieve (search_kwargs sel) q], Next not_found_response)"
    | (chunks) docs where "get_relevant_documents B (search_kwargs sel) q = Inr docs"
      and "docs \<noteq> []"
      and "rag_execution B sel q =
             ([Retrieve (search_kwargs sel) q, Rerank q (map page_content docs)],
              Uncaught TypeError)"
proof (cases "get_relevant_documents B (search_kwargs sel) q")
  case (Inl e)
  then show ?thesis using raises rag_retrieval_raises by blast
next
  case (Inr docs)
  show ?thesis
  proof (cases "docs = []")
    case True
    with Inr show ?thesis using none rag_empty by blast
  next
    case False
    with Inr show ?thesis using chunks rag_chunks by blast
  qed
qed

lemma rag_trace_backend_calls:
  "list_all is_backend_call (fst (rag_execution B sel q))"
  by (cases B sel q rule: rag_cases) simp_all

lemma rag_never_halts: "snd (rag_execution B sel q) \<noteq> Halt"
  by (cases B sel q rule: rag_cases) simp_all

lemma join_Cons: "join sep (x # xs) = x @ concat (map (\<lambda>y. sep @ y) xs)"
  by (induction xs arbitrary: x) simp_all

lemma chat_handler_messages:
  "fst (chat_handler B selected_filter inp messages)
     = messages @
       (case inp of
          None \<Rightarrow> []
        | Some user_prompt \<Rightarrow>
            if user_prompt = [] then []
            else \<lparr>role = ''user'', content = user_prompt\<rparr> #
              (case snd (rag_execution B selected_filter user_prompt) of
                 Next response \<Rightarrow> [\<lparr>role = ''assistant'', content = response\<rparr>]
               | Halt \<Rightarrow> []
               | Uncaught e \<Rightarrow> []))"
proof (cases inp)
  case None
  then show ?thesis by (simp add: chat_handler_def)
next
  case (Some user_prompt)
  obtain evs r where rag: "rag_execution B selected_filter user_prompt = (evs, r)"
    by (cases "rag_execution B selected_filter user_prompt")
  show ?thesis
    using Some rag by (cases r) (simp_all add: chat_handler_def)
qed

lemma run_script_messages:
  "\<exists>appended. session_messages (run_script env (Some messages) cache)
                  = Some (messages @ appended)"
proof -
  obtain evs1 r1 where p1: "load_secrets (secrets_hint env) (secret_store env) = (evs1, r1)"
    by (cases "load_secrets (secrets_hint env) (secret_store env)")
  show ?thesis
  proof (cases r1)
    case (Next cfg)
    obtain evs_init components cache' where
      ini: "initialize_backend_components (connect env) cfg cache = (evs_init, components, cache')"
      by (cases "initialize_backend_components (connect env) cfg cache")
    obtain evs2 r2 where p2: "sidebar (topics_file env) (picked_option env) = (evs2, r2)"
      by (cases "sidebar (topics_file env) (picked_option env)")
    show ?thesis
    proof (cases r2)
      case n2: (Next selected_filter)
      obtain ms' evs3 r3 where
        ch: "chat_handler components selected_filter (chat_input env) messages = (ms', evs3, r3)"
        by (cases "chat_handler components selected_filter (chat_input env) messages")
      have "fst (chat_handler components selected_filter (chat_input env) messages) = ms'"
        using ch by simp
      then have "\<exists>appended. ms' = messages @ appended"
        unfolding chat_handler_messages by blast
      then show ?thesis
        using p1 p2 Next n2 ch ini by (simp add: run_script_def)
    next
      case Halt
      then show ?thesis using p1 p2 Next ini by (simp add: run_script_def)
    next
      case (Uncaught e)
      then show ?thesis using p1 p2 Next ini by (simp add: run_script_def)
    qed
  next
    case Halt
    then show ?thesis using p1 by (simp add: run_script_def)
  next
    case (Uncaught e)
    then show ?thesis using p1 by (simp add: run_script_def)
  qed
qed


section \<open>Secrets, the cache and the sidebar in a run\<close>

lemma load_secrets_present:
  "s ''OPENAI_API_KEY'' = Some okey \<Longrightarrow> s ''PINECONE_API_KEY'' = Some pkey \<Longrightarrow>
   load_secrets hint (Inr s) =
     ([], Next \<lparr>openai_api_key = okey, pinecone_api_key = pkey,
                index_name = (case s ''PINECONE_INDEX_NAME'' of
                                None \<Rightarrow> ''eller-executive-edu-ak-final''
                              | Some v \<Rightarrow> v)\<rparr>)"
  by (simp add: load_secrets_def read_secrets_def secrets_getitem_def secrets_get_def
      split: option.splits)

lemma load_secrets_missing:
  "s ''OPENAI_API_KEY'' = None \<or> s ''PINECONE_API_KEY'' = None \<Longrightarrow>
   load_secrets hint (Inr s) =
     ([StError (missing_secret_message
         (missing_key_sentence hint
            (if s ''OPENAI_API_KEY'' = None then ''OPENAI_API_KEY''
             else ''PINECONE_API_KEY'')))], Halt)"
  by (auto simp add: load_secrets_def read_secrets_def secrets_getitem_def secrets_get_def
      split: option.splits)

lemma load_secrets_Halt_iff:
  "snd (load_secrets hint (Inr s)) = Halt
     \<longleftrightarrow> s ''OPENAI_API_KEY'' = None \<or> s ''PINECONE_API_KEY'' = None"
  by (auto simp add: load_secrets_def read_secrets_def secrets_getitem_def secrets_get_def
      split: option.splits)

lemma load_secrets_no_store:
  "load_secrets hint (Inl (FileNotFoundError msg)) = ([], Uncaught (FileNotFoundError msg))"
  by (simp add: load_secrets_def read_secrets_def secrets_getitem_def)

lemma repr_quote_sentence: "repr_quote (missing_key_sentence hint key) = CHR 0x27"
  by (simp add: repr_quote_def missing_key_sentence_def)

lemma missing_secret_message_openai:
  "missing_secret_message (missing_key_sentence hint ''OPENAI_API_KEY'')
     = [CHR 0xF0, CHR 0x9F, CHR 0x9A, CHR 0xA8] @ '' Missing Secret: Please set ''
       @ [CHR 0x27] @ ''st.secrets has no key '' @ [CHR 0x22] @ ''OPENAI_API_KEY''
       @ [CHR 0x22] @ ''. '' @ concat (map (repr_char (CHR 0x27)) hint) @ [CHR 0x27]
       @ '' in your Streamlit Cloud app settings.''"
  unfolding missing_secret_message_def py_repr_def repr_quote_sentence
  by (simp add: missing_key_sentence_def siren_def repr_char_def)

lemma missing_secret_message_pinecone:
  "missing_secret_message (missing_key_sentence hint ''PINECONE_API_KEY'')
     = [CHR 0xF0, CHR 0x9F, CHR 0x9A, CHR 0xA8] @ '' Missing Secret: Please set ''
       @ [CHR 0x27] @ ''st.secrets has no key '' @ [CHR 0x22] @ ''PINECONE_API_KEY''
       @ [CHR 0x22] @ ''. '' @ concat (map (repr_char (CHR 0x27)) hint) @ [CHR 0x27]
       @ '' in your Streamlit Cloud app settings.''"
  unfolding missing_secret_message_def py_repr_def repr_quote_sentence
  by (simp add: missing_key_sentence_def siren_def repr_char_def)

lemma run_script_started:
  assumes "load_secrets (secrets_hint env) (secret_store env) = ([], Next cfg)"
    and "sidebar (topics_file env) (picked_option env) = (evs2, Next selected_filter)"
  shows "run_script env state cache =
     \<lparr>trace = fst (initialize_backend_components (connect env) cfg cache) @ evs2
                @ render (case state of None \<Rightarrow> [] | Some ms \<Rightarrow> ms)
                @ fst (snd (chat_handler
                        (fst (snd (initialize_backend_components (connect env) cfg cache)))
                        selected_filter (chat_input env)
                        (case state of None \<Rightarrow> [] | Some ms \<Rightarrow> ms))),
      outcome = snd (snd (chat_handler
                        (fst (snd (initialize_backend_components (connect env) cfg cache)))
                        selected_filter (chat_input env)
                        (case state of None \<Rightarrow> [] | Some ms \<Rightarrow> ms))),
      session_messages = Some (fst (chat_handler
                        (fst (snd (initialize_backend_components (connect env) cfg cache)))
                        selected_filter (chat_input env)
                        (case state of None \<Rightarrow> [] | Some ms \<Rightarrow> ms))),
      resource_cache = snd (snd (initialize_backend_components (connect env) cfg cache))\<rparr>"
  using assms
  by (simp add: run_script_def Let_def split: prod.splits)

lemma run_script_sidebar_uncaught:
  assumes "load_secrets (secrets_hint env) (secret_store env) = ([], Next cfg)"
    and "sidebar (topics_file env) (picked_option env) = (evs2, Uncaught e)"
  shows "run_script env state cache =
     \<lparr>trace = fst (initialize_backend_components (connect env) cfg cache) @ evs2,
      outcome = Uncaught e, session_messages = state,
      resource_cache = snd (snd (initialize_backend_components (connect env) cfg cache))\<rparr>"
  using assms by (simp add: run_script_def split: prod.splits)

lemma initialize_cold:
  "initialize_backend_components build cfg None
     = ([InitBackend (openai_api_key cfg) (index_name cfg)],
        build (openai_api_key cfg) (index_name cfg),
        Some (build (openai_api_key cfg) (index_name cfg)))"
  by (simp add: initialize_backend_components_def Let_def)

lemma initialize_components:
  "fst (snd (initialize_backend_components build cfg cache))
     = (case cache of
          Some components \<Rightarrow> components
        | None \<Rightarrow> build (openai_api_key cfg) (index_name cfg))"
  by (simp add: initialize_backend_components_def Let_def split: option.splits)

lemma sidebar_missing:
  "sidebar (Inl (FileNotFoundError path)) picked =
     ([StError topics_not_found_message, Selectbox [''All'']],
      Next (if picked = 0 then PStr ''All'' else PNone))"
  by (simp add: sidebar_def load_topics_def selectbox_def)


section \<open>The empty-retrieval branch\<close>

text \<open>
  C1. Whatever the question and the selected topic filter, when the retriever returns no
  chunk the response of the turn is exactly the fixed not-found sentence, and the trace
  of the turn holds no call of the generation chain.
\<close>

theorem empty_retrieval_fixed_message:
  assumes "get_relevant_documents B (search_kwargs selected_filter) question = Inr []"
  shows "snd (rag_execution B selected_filter question) =
           Next ''I could not find relevant information for that specific topic. Please try another search or select 'All' from the dropdown.''
         \<and> generate_calls (fst (rag_execution B selected_filter question)) = []"
  using assms by (simp add: rag_empty not_found_response_def)

theorem empty_retrieval_fixed_message_witness:
  "get_relevant_documents demo_backends (search_kwargs (PStr ''Finance'')) ''price'' = Inr []
   \<and> snd (rag_execution demo_backends (PStr ''Finance'') ''price'') = Next not_found_response
   \<and> generate_calls (fst (rag_execution demo_backends (PStr ''Finance'') ''price'')) = []"
proof -
  have h: "get_relevant_documents demo_backends (search_kwargs (PStr ''Finance'')) ''price''
             = Inr []"
    by (simp add: demo_backends_def search_kwargs_def demo_retriever_def demo_chunks_def
        has_topic_def)
  show ?thesis
    using h empty_retrieval_fixed_message [OF h] by (simp add: not_found_response_def)
qed


section \<open>The reranking step\<close>

text \<open>
  C2 does not hold of the script. For every query and every non-empty list of retrieved
  chunks, \<open>rerank_docs\<close> makes its one call of the ranker and leaves with the ranker's
  \<^verbatim>\<open>TypeError\<close>: the passages of line 52 are bare strings, and the ranker reads
  \<^verbatim>\<open>passage["text"]\<close>. No list of texts is returned, whatever the scoring model. For no
  chunks the request is empty, and the step returns the empty list unless the model
  raises on an empty batch.
\<close>

theorem rerank_docs_fails_on_chunks:
  "(docs \<noteq> [] \<longrightarrow>
      rerank_docs B query docs
        = ([Rerank query (map page_content docs)], Uncaught TypeError)
      \<and> (\<forall>reranked. snd (rerank_docs B query docs) \<noteq> Next reranked))
   \<and> snd (rerank_docs B query [])
       = (case ranker_model B query [] of Inl e \<Rightarrow> Uncaught e | Inr scores \<Rightarrow> Next [])"
proof (intro conjI impI allI)
  assume chunks: "docs \<noteq> []"
  then have "passage_texts (map PStr (map page_content docs)) = Inl TypeError"
    by (intro passage_texts_bare) simp
  then have "ranker_rerank (ranker_model B) query (map PStr (map page_content docs))
               = Inl TypeError"
    by (simp add: ranker_rerank_def)
  then show raised: "rerank_docs B query docs
      = ([Rerank query (map page_content docs)], Uncaught TypeError)"
    by (rule rerank_docs_raises)
  fix reranked
  show "snd (rerank_docs B query docs) \<noteq> Next reranked"
    unfolding raised by simp
next
  show "snd (rerank_docs B query [])
       = (case ranker_model B query [] of Inl e \<Rightarrow> Uncaught e | Inr scores \<Rightarrow> Next [])"
    by (simp add: rerank_docs_none)
qed

theorem rerank_docs_fails_on_chunks_witness:
  "demo_chunks \<noteq> []
   \<and> length demo_chunks = 3
   \<and> rerank_docs demo_backends ''price'' demo_chunks
       = ([Rerank ''price'' [''cost'', ''value price'', ''brand'']], Uncaught TypeError)"
proof -
  have n: "demo_chunks \<noteq> []"
    by (simp add: demo_chunks_def)
  from rerank_docs_fails_on_chunks [of demo_chunks demo_backends "''price''"] n
  show ?thesis
    by (simp add: demo_chunks_def)
qed





section \<open>The retrieval request\<close>

text \<open>
  C4. Every turn makes exactly one retrieval call, with the question and the search
  arguments built from the selected filter. These always hold \<open>k = 25\<close>; they hold no
  \<open>filter\<close> entry exactly when the selected value is \<open>All\<close>; for any other selected value
  the entry is the membership term \<^verbatim>\<open>{"topics": {"$in": [selected]}}\<close>; and they hold
  nothing else.
\<close>

theorem retrieval_request:
  "retrieve_calls (fst (rag_execution B selected_filter question))
     = [(search_kwargs selected_filter, question)]
   \<and> map_of (search_kwargs selected_filter) ''k'' = Some (PInt 25)
   \<and> (map_of (search_kwargs selected_filter) ''filter'' = None
        \<longleftrightarrow> selected_filter = PStr ''All'')
   \<and> (selected_filter \<noteq> PStr ''All'' \<longrightarrow>
        map_of (search_kwargs selected_filter) ''filter''
          = Some (PDict [(''topics'', PDict [(''$in'', PList [selected_filter])])]))
   \<and> dom (map_of (search_kwargs selected_filter)) \<subseteq> {''k'', ''filter''}"
proof -
  have calls: "retrieve_calls (fst (rag_execution B selected_filter question))
     = [(search_kwargs selected_filter, question)]"
    by (cases B selected_filter question rule: rag_cases) simp_all
  have kw: "map_of (search_kwargs selected_filter) ''k'' = Some (PInt 25)"
    by (simp add: search_kwargs_def Let_def)
  have flt: "map_of (search_kwargs selected_filter) ''filter''
    = (if selected_filter = PStr ''All'' then None
       else Some (PDict [(''topics'', PDict [(''$in'', PList [selected_filter])])]))"
    by (simp add: search_kwargs_def Let_def)
  have dm: "dom (map_of (search_kwargs selected_filter)) \<subseteq> {''k'', ''filter''}"
    by (auto simp add: search_kwargs_def Let_def split: if_splits)
  from calls kw flt dm show ?thesis by simp
qed

theorem retrieval_request_witness:
  "PStr ''Pricing'' \<noteq> PStr ''All''
   \<and> retrieve_calls (fst (rag_execution demo_backends (PStr ''Pricing'') ''price''))
       = [([(''k'', PInt 25),
            (''filter'', PDict [(''topics'', PDict [(''$in'', PList [PStr ''Pricing''])])])],
           ''price'')]
   \<and> map_of (search_kwargs (PStr ''Pricing'')) ''filter''
       = Some (PDict [(''topics'', PDict [(''$in'', PList [PStr ''Pricing''])])])"
  using retrieval_request [of demo_backends "PStr ''Pricing''" "''price''"]
  by (simp add: search_kwargs_def)


section \<open>Generation\<close>

text \<open>
  C5 does not hold of the script. In every turn whose retrieval returns at least one
  chunk, the turn makes the retrieval call and the ranker call and leaves with the
  ranker's \<^verbatim>\<open>TypeError\<close>: the generation chain is not called at all, and the turn has no
  response.
\<close>

theorem generator_not_reached:
  assumes "get_relevant_documents B (search_kwargs selected_filter) question = Inr docs"
    and "docs \<noteq> []"
  shows "rag_execution B selected_filter question
           = ([Retrieve (search_kwargs selected_filter) question,
               Rerank question (map page_content docs)],
              Uncaught TypeError)
         \<and> generate_calls (fst (rag_execution B selected_filter question)) = []"
  using assms by (simp add: rag_chunks)

theorem generator_not_reached_witness:
  "get_relevant_documents demo_backends (search_kwargs (PStr ''All'')) ''price'' = Inr demo_chunks
   \<and> demo_chunks \<noteq> []
   \<and> rag_execution demo_backends (PStr ''All'') ''price''
       = ([Retrieve [(''k'', PInt 25)] ''price'',
           Rerank ''price'' [''cost'', ''value price'', ''brand'']],
          Uncaught TypeError)
   \<and> generate_calls (fst (rag_execution demo_backends (PStr ''All'') ''price'')) = []"
proof -
  have d: "get_relevant_documents demo_backends (search_kwargs (PStr ''All'')) ''price''
             = Inr demo_chunks"
    by (simp add: demo_backends_def search_kwargs_def demo_retriever_def)
  have n: "demo_chunks \<noteq> []"
    by (simp add: demo_chunks_def)
  have kw: "search_kwargs (PStr ''All'') = [(''k'', PInt 25)]"
    by (simp add: search_kwargs_def)
  have c: "map page_content demo_chunks = [''cost'', ''value price'', ''brand'']"
    by (simp add: demo_chunks_def)
  from generator_not_reached [OF d n] d n show ?thesis
    by (simp add: kw c)
qed


section \<open>The transcript\<close>

text \<open>
  C6. Handling a prompt only appends to the transcript: the user's entry, and after it
  the assistant's entry with the response when the pipeline returned one (no entry at all
  when there was no prompt). Every entry that was there before keeps its position, role
  and content, in the handler and in a whole run of the script.
\<close>

theorem transcript_append_only:
  "fst (chat_handler B selected_filter inp messages)
     = messages @
       (case inp of
          None \<Rightarrow> []
        | Some user_prompt \<Rightarrow>
            if user_prompt = [] then []
            else \<lparr>role = ''user'', content = user_prompt\<rparr> #
              (case snd (rag_execution B selected_filter user_prompt) of
                 Next response \<Rightarrow> [\<lparr>role = ''assistant'', content = response\<rparr>]
               | Halt \<Rightarrow> []
               | Uncaught e \<Rightarrow> []))
   \<and> (\<forall>i < length messages.
         fst (chat_handler B selected_filter inp messages) ! i = messages ! i)
   \<and> (\<exists>appended. session_messages (run_script env (Some messages) cache)
                     = Some (messages @ appended))"
proof -
  note m = chat_handler_messages [of B selected_filter inp messages]
  have "\<forall>i < length messages.
          fst (chat_handler B selected_filter inp messages) ! i = messages ! i"
    unfolding m by (simp add: nth_append)
  with m run_script_messages show ?thesis by blast
qed

theorem transcript_append_only_witness:
  "fst (chat_handler demo_backends (PStr ''Finance'') (Some ''price'') demo_transcript)
     = demo_transcript @ [\<lparr>role = ''user'', content = ''price''\<rparr>,
                          \<lparr>role = ''assistant'', content = not_found_response\<rparr>]
   \<and> (0::nat) < length demo_transcript
   \<and> fst (chat_handler demo_backends (PStr ''Finance'') (Some ''price'') demo_transcript) ! 0
       = \<lparr>role = ''user'', content = ''hello''\<rparr>"
proof -
  have h: "get_relevant_documents demo_backends (search_kwargs (PStr ''Finance'')) ''price''
             = Inr []"
    by (simp add: demo_backends_def search_kwargs_def demo_retriever_def demo_chunks_def
        has_topic_def)
  have l: "(0::nat) < length demo_transcript"
    by (simp add: demo_transcript_def)
  from transcript_append_only
         [of demo_backends "PStr ''Finance''" "Some ''price''" demo_transcript demo_env None]
       l
  show ?thesis
    by (simp add: rag_empty [OF h] demo_transcript_def)
qed


section \<open>The topics file\<close>

text \<open>
  C7, as stated, fails for a file that is there but does not parse: the error of
  \<^verbatim>\<open>json.load\<close> has no handler, so the run ends with it right after the backend was
  initialised, and no list of options is produced.
\<close>

theorem corrupt_topics_counterexample:
  "load_topics (Inl (JSONDecodeError ''Expecting value''))
     = ([], Uncaught (JSONDecodeError ''Expecting value''))
   \<and> run_script corrupt_topics_env None None
       = \<lparr>trace = [InitBackend ''sk-demo'' ''eller-executive-edu-ak-final''],
          outcome = Uncaught (JSONDecodeError ''Expecting value''),
          session_messages = None,
          resource_cache = Some demo_backends\<rparr>"
proof -
  have ld: "load_secrets (secrets_hint corrupt_topics_env) (secret_store corrupt_topics_env)
      = ([], Next \<lparr>openai_api_key = ''sk-demo'', pinecone_api_key = ''pc-demo'',
                   index_name = ''eller-executive-edu-ak-final''\<rparr>)"
    by (simp add: corrupt_topics_env_def demo_env_def demo_secrets_def load_secrets_present)
  have sb: "sidebar (topics_file corrupt_topics_env) (picked_option corrupt_topics_env)
      = ([], Uncaught (JSONDecodeError ''Expecting value''))"
    by (simp add: corrupt_topics_env_def demo_env_def sidebar_def load_topics_def)
  have c: "connect corrupt_topics_env = demo_connect"
    by (simp add: corrupt_topics_env_def demo_env_def)
  show ?thesis
    using run_script_sidebar_uncaught [OF ld sb, of None None]
    by (simp add: load_topics_def initialize_cold c demo_connect_def)
qed

text \<open>
  C7, amended. When the topics file is absent and both API keys are set, loading shows the
  not-found error and yields exactly the options \<open>[All]\<close>, the select box is drawn with
  them, and the run goes on into the chat handler, whose outcome is the outcome of the run.
  A decode error of \<^verbatim>\<open>json.load\<close> is not handled: it leaves the loading uncaught.
\<close>

theorem missing_topics_degrades:
  assumes "secret_store env = Inr store"
    and "store ''OPENAI_API_KEY'' = Some okey"
    and "store ''PINECONE_API_KEY'' = Some pkey"
    and "topics_file env = Inl (FileNotFoundError path)"
  shows "load_topics (topics_file env)
           = ([StError ''`topics.json` not found. Please ensure it's in your GitHub repository.''],
              Next [''All''])
         \<and> (\<exists>before after.
               trace (run_script env state cache) = before @ [Selectbox [''All'']] @ after)
         \<and> outcome (run_script env state cache)
             = snd (snd (chat_handler
                      (case cache of
                         Some components \<Rightarrow> components
                       | None \<Rightarrow>
                           connect env okey
                             (case store ''PINECONE_INDEX_NAME'' of
                                None \<Rightarrow> ''eller-executive-edu-ak-final''
                              | Some v \<Rightarrow> v))
                      (if picked_option env = 0 then PStr ''All'' else PNone)
                      (chat_input env) (case state of None \<Rightarrow> [] | Some ms \<Rightarrow> ms)))
         \<and> load_topics (Inl (JSONDecodeError msg)) = ([], Uncaught (JSONDecodeError msg))"
proof -
  let ?cfg = "\<lparr>openai_api_key = okey, pinecone_api_key = pkey,
               index_name = (case store ''PINECONE_INDEX_NAME'' of
                               None \<Rightarrow> ''eller-executive-edu-ak-final''
                             | Some v \<Rightarrow> v)\<rparr>"
  have ld: "load_secrets (secrets_hint env) (secret_store env) = ([], Next ?cfg)"
    unfolding assms(1) using assms(2) assms(3) by (rule load_secrets_present)
  have sb: "sidebar (topics_file env) (picked_option env) =
     ([StError topics_not_found_message, Selectbox [''All'']],
      Next (if picked_option env = 0 then PStr ''All'' else PNone))"
    unfolding assms(4) by (rule sidebar_missing)
  note run = run_script_started [OF ld sb, of state cache]
  have t: "load_topics (topics_file env)
           = ([StError ''`topics.json` not found. Please ensure it's in your GitHub repository.''],
              Next [''All''])"
    unfolding assms(4) by (simp add: load_topics_def topics_not_found_message_def)
  have tr: "\<exists>before after.
               trace (run_script env state cache) = before @ [Selectbox [''All'']] @ after"
  proof -
    have "trace (run_script env state cache)
        = (fst (initialize_backend_components (connect env) ?cfg cache)
             @ [StError topics_not_found_message])
          @ [Selectbox [''All'']]
          @ (render (case state of None \<Rightarrow> [] | Some ms \<Rightarrow> ms)
             @ fst (snd (chat_handler
                      (fst (snd (initialize_backend_components (connect env) ?cfg cache)))
                      (if picked_option env = 0 then PStr ''All'' else PNone)
                      (chat_input env) (case state of None \<Rightarrow> [] | Some ms \<Rightarrow> ms))))"
      unfolding run by simp
    then show ?thesis by blast
  qed
  have oc: "outcome (run_script env state cache)
             = snd (snd (chat_handler
                      (case cache of
                         Some components \<Rightarrow> components
                       | None \<Rightarrow>
                           connect env okey
                             (case store ''PINECONE_INDEX_NAME'' of
                                None \<Rightarrow> ''eller-executive-edu-ak-final''
                              | Some v \<Rightarrow> v))
                      (if picked_option env = 0 then PStr ''All'' else PNone)
                      (chat_input env) (case state of None \<Rightarrow> [] | Some ms \<Rightarrow> ms)))"
    unfolding run by (cases cache) (simp_all add: initialize_components)
  have bad: "load_topics (Inl (JSONDecodeError msg)) = ([], Uncaught (JSONDecodeError msg))"
    by (simp add: load_topics_def)
  from t tr oc bad show ?thesis by blast
qed

theorem missing_topics_degrades_witness:
  "secret_store missing_topics_env = Inr demo_secrets
   \<and> demo_secrets ''OPENAI_API_KEY'' = Some ''sk-demo''
   \<and> demo_secrets ''PINECONE_API_KEY'' = Some ''pc-demo''
   \<and> topics_file missing_topics_env = Inl (FileNotFoundError ''topics.json'')
   \<and> load_topics (topics_file missing_topics_env)
       = ([StError topics_not_found_message], Next [''All''])
   \<and> outcome (run_script missing_topics_env None None) = Next ()"
proof -
  have s: "secret_store missing_topics_env = Inr demo_secrets"
    and c: "topics_file missing_topics_env = Inl (FileNotFoundError ''topics.json'')"
    and p: "picked_option missing_topics_env = 0"
    and i: "chat_input missing_topics_env = Some ''price''"
    and k: "connect missing_topics_env = empty_connect"
    by (simp_all add: missing_topics_env_def demo_env_def)
  have a: "demo_secrets ''OPENAI_API_KEY'' = Some ''sk-demo''"
    and b: "demo_secrets ''PINECONE_API_KEY'' = Some ''pc-demo''"
    by (simp_all add: demo_secrets_def)
  have d: "get_relevant_documents empty_backends (search_kwargs (PStr ''All'')) ''price''
             = Inr []"
    by (simp add: empty_backends_def empty_retriever_def)
  have ch: "snd (snd (chat_handler empty_backends (PStr ''All'') (Some ''price'') [])) = Next ()"
    by (simp add: chat_handler_def rag_empty [OF d])
  from missing_topics_degrades [OF s a b c, of None None] s a b c show ?thesis
    by (simp add: p i k ch topics_not_found_message_def empty_connect_def)
qed


section \<open>Starting up\<close>

text \<open>
  C8, as stated, fails when there is no secrets file: the keys are absent, the lookup
  raises a \<^verbatim>\<open>FileNotFoundError\<close>, which the handler of line 24 does not catch, and the run
  ends with it; the script shows no message of its own and does not call \<^verbatim>\<open>st.stop\<close>.
\<close>

theorem no_secrets_file_counterexample:
  "run_script no_secrets_env None None
     = \<lparr>trace = [], outcome = Uncaught (FileNotFoundError ''No secrets found''),
        session_messages = None, resource_cache = None\<rparr>"
  by (simp add: run_script_def no_secrets_env_def demo_env_def load_secrets_no_store)

text \<open>
  C8, amended. When the secrets can be read and one of the two API keys is missing from
  them, the run shows one error and stops there: its text is the script's sentence around
  the quoted sentence of the \<^verbatim>\<open>KeyError\<close>, which names the first missing key between
  double quotes; the backend is not initialised, and the session and the cache are left
  as they were. When there is no secrets file, the \<^verbatim>\<open>FileNotFoundError\<close> of the lookup
  leaves the script uncaught, with nothing shown by the script.
\<close>

theorem missing_key_stops:
  "(secret_store env = Inr store
      \<and> (store ''OPENAI_API_KEY'' = None \<or> store ''PINECONE_API_KEY'' = None) \<longrightarrow>
      run_script env state cache =
        \<lparr>trace = [StError ([CHR 0xF0, CHR 0x9F, CHR 0x9A, CHR 0xA8]
                     @ '' Missing Secret: Please set '' @ [CHR 0x27]
                     @ ''st.secrets has no key '' @ [CHR 0x22]
                     @ (if store ''OPENAI_API_KEY'' = None
                        then ''OPENAI_API_KEY'' else ''PINECONE_API_KEY'')
                     @ [CHR 0x22] @ ''. ''
                     @ concat (map (repr_char (CHR 0x27)) (secrets_hint env))
                     @ [CHR 0x27] @ '' in your Streamlit Cloud app settings.'')],
         outcome = Halt, session_messages = state, resource_cache = cache\<rparr>
      \<and> \<not> backend_initialised (trace (run_script env state cache)))
   \<and> (secret_store env = Inl (FileNotFoundError msg) \<longrightarrow>
        run_script env state cache =
          \<lparr>trace = [], outcome = Uncaught (FileNotFoundError msg),
           session_messages = state, resource_cache = cache\<rparr>)"
proof (intro conjI impI)
  assume h: "secret_store env = Inr store
             \<and> (store ''OPENAI_API_KEY'' = None \<or> store ''PINECONE_API_KEY'' = None)"
  then have miss: "store ''OPENAI_API_KEY'' = None \<or> store ''PINECONE_API_KEY'' = None"
    by simp
  have run: "run_script env state cache =
          \<lparr>trace = [StError (missing_secret_message
              (missing_key_sentence (secrets_hint env)
                 (if store ''OPENAI_API_KEY'' = None then ''OPENAI_API_KEY''
                  else ''PINECONE_API_KEY'')))],
           outcome = Halt, session_messages = state, resource_cache = cache\<rparr>"
    using h by (simp add: run_script_def load_secrets_missing [OF miss])
  show "run_script env state cache =
        \<lparr>trace = [StError ([CHR 0xF0, CHR 0x9F, CHR 0x9A, CHR 0xA8]
                     @ '' Missing Secret: Please set '' @ [CHR 0x27]
                     @ ''st.secrets has no key '' @ [CHR 0x22]
                     @ (if store ''OPENAI_API_KEY'' = None
                        then ''OPENAI_API_KEY'' else ''PINECONE_API_KEY'')
                     @ [CHR 0x22] @ ''. ''
                     @ concat (map (repr_char (CHR 0x27)) (secrets_hint env))
                     @ [CHR 0x27] @ '' in your Streamlit Cloud app settings.'')],
         outcome = Halt, session_messages = state, resource_cache = cache\<rparr>"
    unfolding run
    by (cases "store ''OPENAI_API_KEY'' = None")
       (simp_all add: missing_secret_message_openai missing_secret_message_pinecone)
  show "\<not> backend_initialised (trace (run_script env state cache))"
    unfolding run by simp
next
  assume "secret_store env = Inl (FileNotFoundError msg)"
  then show "run_script env state cache =
          \<lparr>trace = [], outcome = Uncaught (FileNotFoundError msg),
           session_messages = state, resource_cache = cache\<rparr>"
    by (simp add: run_script_def load_secrets_no_store)
qed

theorem missing_key_stops_witness:
  "secret_store no_pinecone_key_env = Inr [''OPENAI_API_KEY'' \<mapsto> ''sk-demo'']
   \<and> [''OPENAI_API_KEY'' \<mapsto> ''sk-demo''] ''PINECONE_API_KEY'' = None
   \<and> outcome (run_script no_pinecone_key_env None None) = Halt
   \<and> trace (run_script no_pinecone_key_env None None)
       = [StError (siren @ '' Missing Secret: Please set '' @ [CHR 0x27]
            @ ''st.secrets has no key '' @ [CHR 0x22] @ ''PINECONE_API_KEY'' @ [CHR 0x22]
            @ ''. Did you forget to add it to secrets.toml?'' @ [CHR 0x27]
            @ '' in your Streamlit Cloud app settings.'')]
   \<and> secret_store no_secrets_env = Inl (FileNotFoundError ''No secrets found'')
   \<and> outcome (run_script no_secrets_env None None)
       = Uncaught (FileNotFoundError ''No secrets found'')"
proof -
  have s: "secret_store no_pinecone_key_env = Inr [''OPENAI_API_KEY'' \<mapsto> ''sk-demo'']"
    by (simp add: no_pinecone_key_env_def demo_env_def)
  have m: "[''OPENAI_API_KEY'' \<mapsto> ''sk-demo''] ''PINECONE_API_KEY'' = None"
    by simp
  have hnt: "secrets_hint no_pinecone_key_env = ''Did you forget to add it to secrets.toml?''"
    by (simp add: no_pinecone_key_env_def demo_env_def demo_hint_def)
  have n: "secret_store no_secrets_env = Inl (FileNotFoundError ''No secrets found'')"
    by (simp add: no_secrets_env_def demo_env_def)
  from missing_key_stops
         [where env = no_pinecone_key_env and store = "[''OPENAI_API_KEY'' \<mapsto> ''sk-demo'']"
            and state = None and cache = None]
       missing_key_stops
         [where env = no_secrets_env and msg = "''No secrets found''"
            and state = None and cache = None]
       s m n
  show ?thesis
    by (simp add: hnt siren_def repr_char_def)
qed

text \<open>
  C10. With both API keys set and no \<^verbatim>\<open>PINECONE_INDEX_NAME\<close> entry, loading the secrets
  succeeds without any message and the index name is the fixed default. For any secrets
  that can be read, loading stops the run exactly when one of the two API keys is missing.
\<close>

theorem index_name_defaults:
  assumes "secret_store env = Inr store"
    and "store ''OPENAI_API_KEY'' = Some okey"
    and "store ''PINECONE_API_KEY'' = Some pkey"
    and "store ''PINECONE_INDEX_NAME'' = None"
  shows "load_secrets (secrets_hint env) (secret_store env)
           = ([], Next \<lparr>openai_api_key = okey, pinecone_api_key = pkey,
                        index_name = ''eller-executive-edu-ak-final''\<rparr>)
         \<and> (snd (load_secrets hint (Inr s)) = Halt
              \<longleftrightarrow> s ''OPENAI_API_KEY'' = None \<or> s ''PINECONE_API_KEY'' = None)"
proof -
  have "load_secrets (secrets_hint env) (secret_store env)
           = ([], Next \<lparr>openai_api_key = okey, pinecone_api_key = pkey,
                        index_name = ''eller-executive-edu-ak-final''\<rparr>)"
    unfolding assms(1)
    using load_secrets_present [OF assms(2) assms(3)] assms(4) by simp
  with load_secrets_Halt_iff [of hint s] show ?thesis by blast
qed

theorem index_name_defaults_witness:
  "secret_store demo_env = Inr demo_secrets
   \<and> demo_secrets ''OPENAI_API_KEY'' = Some ''sk-demo''
   \<and> demo_secrets ''PINECONE_API_KEY'' = Some ''pc-demo''
   \<and> demo_secrets ''PINECONE_INDEX_NAME'' = None
   \<and> load_secrets (secrets_hint demo_env) (secret_store demo_env)
       = ([], Next \<lparr>openai_api_key = ''sk-demo'', pinecone_api_key = ''pc-demo'',
                    index_name = ''eller-executive-edu-ak-final''\<rparr>)"
proof -
  have s: "secret_store demo_env = Inr demo_secrets"
    by (simp add: demo_env_def)
  have a: "demo_secrets ''OPENAI_API_KEY'' = Some ''sk-demo''"
    and b: "demo_secrets ''PINECONE_API_KEY'' = Some ''pc-demo''"
    and c: "demo_secrets ''PINECONE_INDEX_NAME'' = None"
    by (simp_all add: demo_secrets_def)
  from index_name_defaults [OF s a b c] s a b c show ?thesis by simp
qed


section \<open>Backend failures\<close>

text \<open>
  C9, as stated, fails: the chat handler has no \<^verbatim>\<open>try\<close>. With a retriever that raises, the
  run ends with that exception uncaught; no assistant entry and no error text is produced.
\<close>

theorem backend_failure_counterexample:
  "run_script failing_env (Some demo_transcript) None
     = \<lparr>trace =
          [InitBackend ''sk-demo'' ''eller-executive-edu-ak-final'',
           Selectbox [''All'', ''Pricing'', ''Marketing''],
           ChatMessage ''user'' ''hello'', ChatMessage ''assistant'' ''welcome'',
           ChatMessage ''user'' ''price'',
           Retrieve [(''k'', PInt 25),
                     (''filter'', PDict [(''topics'', PDict [(''$in'', PList [PStr ''Pricing''])])])]
             ''price''],
        outcome = Uncaught (BackendError ''retrieval unavailable''),
        session_messages =
          Some [\<lparr>role = ''user'', content = ''hello''\<rparr>,
                \<lparr>role = ''assistant'', content = ''welcome''\<rparr>,
                \<lparr>role = ''user'', content = ''price''\<rparr>],
        resource_cache = Some failing_backends\<rparr>"
proof -
  have ld: "load_secrets (secrets_hint failing_env) (secret_store failing_env)
      = ([], Next \<lparr>openai_api_key = ''sk-demo'', pinecone_api_key = ''pc-demo'',
                   index_name = ''eller-executive-edu-ak-final''\<rparr>)"
    by (simp add: failing_env_def demo_env_def demo_secrets_def load_secrets_present)
  have sb: "sidebar (topics_file failing_env) (picked_option failing_env)
      = ([Selectbox [''All'', ''Pricing'', ''Marketing'']], Next (PStr ''Pricing''))"
    by (simp add: failing_env_def demo_env_def sidebar_def load_topics_def selectbox_def)
  have k: "connect failing_env = failing_connect"
    and i: "chat_input failing_env = Some ''price''"
    by (simp_all add: failing_env_def demo_env_def)
  have kw: "search_kwargs (PStr ''Pricing'')
      = [(''k'', PInt 25),
         (''filter'', PDict [(''topics'', PDict [(''$in'', PList [PStr ''Pricing''])])])]"
    by (simp add: search_kwargs_def)
  have d: "get_relevant_documents failing_backends (search_kwargs (PStr ''Pricing'')) ''price''
      = Inl (BackendError ''retrieval unavailable'')"
    by (simp add: failing_backends_def failing_retriever_def)
  show ?thesis
    unfolding run_script_started [OF ld sb] k i
    by (simp add: initialize_cold failing_connect_def chat_handler_def
        rag_retrieval_raises [OF d] kw render_def demo_transcript_def)
qed

text \<open>
  C9, amended. When the retriever, the ranker or the generation chain raises during a
  turn, the exception leaves the chat handler uncaught; the handler has shown the user's
  prompt and made its backend calls and nothing more (no error text, no assistant
  message), the transcript has gained the user's entry only, and every earlier entry is
  unchanged.
\<close>

theorem backend_failure_propagates:
  assumes "user_prompt \<noteq> []"
    and "get_relevant_documents B (search_kwargs selected_filter) user_prompt = Inl e
         \<or> (\<exists>docs. get_relevant_documents B (search_kwargs selected_filter) user_prompt = Inr docs
               \<and> docs \<noteq> []
               \<and> (ranker_rerank (ranker_model B) user_prompt (map PStr (map page_content docs))
                     = Inl e
                  \<or> (\<exists>results.
                        ranker_rerank (ranker_model B) user_prompt
                          (map PStr (map page_content docs)) = Inr results
                        \<and> generate_answer_chain B user_prompt
                            (join separator (map text (take 5 results))) = Inl e)))"
  shows "chat_handler B selected_filter (Some user_prompt) messages
           = (messages @ [\<lparr>role = ''user'', content = user_prompt\<rparr>],
              ChatMessage ''user'' user_prompt # fst (rag_execution B selected_filter user_prompt),
              Uncaught e)
         \<and> list_all is_backend_call (fst (rag_execution B selected_filter user_prompt))
         \<and> (\<forall>i < length messages.
               fst (chat_handler B selected_filter (Some user_prompt) messages) ! i
                 = messages ! i)"
proof -
  have "snd (rag_execution B selected_filter user_prompt) = Uncaught e"
    using assms(2)
    by (auto simp add: rag_retrieval_raises rag_rerank_raises rag_generates)
  then obtain evs where rag: "rag_execution B selected_filter user_prompt = (evs, Uncaught e)"
    by (cases "rag_execution B selected_filter user_prompt") simp
  have ch: "chat_handler B selected_filter (Some user_prompt) messages
           = (messages @ [\<lparr>role = ''user'', content = user_prompt\<rparr>],
              ChatMessage ''user'' user_prompt # fst (rag_execution B selected_filter user_prompt),
              Uncaught e)"
    using assms(1) by (simp add: chat_handler_def rag)
  show ?thesis
    unfolding ch by (simp add: nth_append rag_trace_backend_calls)
qed

theorem backend_failure_propagates_witness:
  "''price'' \<noteq> []
   \<and> get_relevant_documents demo_backends (search_kwargs (PStr ''All'')) ''price''
       = Inr demo_chunks
   \<and> demo_chunks \<noteq> []
   \<and> ranker_rerank (ranker_model demo_backends) ''price''
       (map PStr (map page_content demo_chunks)) = Inl TypeError
   \<and> snd (snd (chat_handler demo_backends (PStr ''All'') (Some ''price'') demo_transcript))
       = Uncaught TypeError
   \<and> fst (chat_handler demo_backends (PStr ''All'') (Some ''price'') demo_transcript)
       = demo_transcript @ [\<lparr>role = ''user'', content = ''price''\<rparr>]"
proof -
  have q: "''price'' \<noteq> []" by simp
  have d: "get_relevant_documents demo_backends (search_kwargs (PStr ''All'')) ''price''
             = Inr demo_chunks"
    by (simp add: demo_backends_def search_kwargs_def demo_retriever_def)
  have n: "demo_chunks \<noteq> []"
    by (simp add: demo_chunks_def)
  have r: "ranker_rerank (ranker_model demo_backends) ''price''
             (map PStr (map page_content demo_chunks)) = Inl TypeError"
    by (rule ranker_rerank_bare) (simp add: demo_chunks_def)
  have h: "get_relevant_documents demo_backends (search_kwargs (PStr ''All'')) ''price''
             = Inl TypeError
         \<or> (\<exists>docs. get_relevant_documents demo_backends (search_kwargs (PStr ''All'')) ''price''
                     = Inr docs
               \<and> docs \<noteq> []
               \<and> (ranker_rerank (ranker_model demo_backends) ''price''
                     (map PStr (map page_content docs)) = Inl TypeError
                  \<or> (\<exists>results.
                        ranker_rerank (ranker_model demo_backends) ''price''
                          (map PStr (map page_content docs)) = Inr results
                        \<and> generate_answer_chain demo_backends ''price''
                            (join separator (map text (take 5 results))) = Inl TypeError)))"
    using d n r by blast
  from backend_failure_propagates [OF q h, of demo_transcript] d n r show ?thesis
    by simp
qed

end
